theory Spec2Isabelle
  imports Complex_Main
begin

section \<open>RiskGuard 360: the scoring engine (scoring\_engine/scoring.py)\<close>

text \<open>
  The engine is a set of pure Python functions over numbers, strings and small records.
  Python's \<^verbatim>\<open>float\<close> values are modelled as exact real numbers and \<^verbatim>\<open>int\<close> values as
  \<^typ>\<open>int\<close>: a decimal literal such as \<^verbatim>\<open>0.35\<close> is the real number 35/100, and every
  arithmetic operation is exact. The binary rounding of IEEE doubles, their overflow and
  their NaN are outside the model.
\<close>

subsection \<open>Numbers and implicit errors\<close>

text \<open>
  The source raises nothing explicitly; the only exception the arithmetic can raise is
  \<^verbatim>\<open>ZeroDivisionError\<close>. A division whose divisor is not guarded by the surrounding code
  goes through \<open>py_div\<close>, and the functions that contain one return a sum.
\<close>

datatype py_error = ZeroDivisionError

definition py_div :: "real \<Rightarrow> real \<Rightarrow> py_error + real" where
  "py_div a b = (if b = 0 then Inl ZeroDivisionError else Inr (a / b))"

text \<open>
  \<^verbatim>\<open>round(x, nd)\<close>: the nearest multiple of \<open>10 ^ -nd\<close>, a tie going to the even one.
\<close>

definition round_half_even :: "real \<Rightarrow> int" where
  "round_half_even s =
     (let f = \<lfloor>s\<rfloor>;
          d = s - of_int f
      in if d < 1 / 2 then f
         else if 1 / 2 < d then f + 1
         else if even f then f
         else f + 1)"

definition py_round :: "real \<Rightarrow> nat \<Rightarrow> real" where
  "py_round x nd = of_int (round_half_even (x * 10 ^ nd)) / 10 ^ nd"

subsection \<open>The monthly instalment\<close>

text \<open>
  \<^verbatim>\<open>montant * (t * (1 + t) ** d) / ((1 + t) ** d - 1)\<close>, written out three times in the
  source (debt scorer, details of the result, simulator), always under \<^verbatim>\<open>d > 0\<close>.
\<close>

definition annuite :: "real \<Rightarrow> real \<Rightarrow> int \<Rightarrow> py_error + real" where
  "annuite montant t d =
     py_div (montant * (t * (1 + t) ^ nat d)) ((1 + t) ^ nat d - 1)"

text \<open>
  \<^verbatim>\<open>if taux_mensuel > 0 and duree_mois > 0: <annuity> else: montant / max(duree_mois, 1)\<close>
\<close>

definition mensualite_pret :: "real \<Rightarrow> real \<Rightarrow> int \<Rightarrow> py_error + real" where
  "mensualite_pret montant taux_mensuel duree_mois =
     (if 0 < taux_mensuel \<and> 0 < duree_mois
      then annuite montant taux_mensuel duree_mois
      else Inr (montant / of_int (max duree_mois 1)))"

subsection \<open>Debt-ratio scorer\<close>

text \<open>The \<^verbatim>\<open>if/elif\<close> chain of lines 158--167, from the unrounded ratio to the unrounded score.\<close>

definition score_ratio :: "real \<Rightarrow> real" where
  "score_ratio ratio =
     (if ratio \<le> 0.20 then 100
      else if ratio \<le> 0.33 then 100 - ((ratio - 0.20) / 0.13) * 30
      else if ratio \<le> 0.45 then 70 - ((ratio - 0.33) / 0.12) * 30
      else if ratio \<le> 0.60 then 40 - ((ratio - 0.45) / 0.15) * 25
      else max 0 (15 - ((ratio - 0.60) / 0.40) * 15))"

definition calculer_score_endettement ::
    "real \<Rightarrow> real \<Rightarrow> real \<Rightarrow> real \<Rightarrow> int \<Rightarrow> py_error + (real \<times> real)" where
  "calculer_score_endettement revenu charges dettes montant_demande duree_mois =
     (if revenu \<le> 0 then Inr (0, 1)
      else
        (case mensualite_pret montant_demande (0.15 / 12) duree_mois of
           Inl e \<Rightarrow> Inl e
         | Inr mensualite \<Rightarrow>
             (let ratio = (charges + dettes + mensualite) / revenu
              in Inr (py_round (score_ratio ratio) 2, py_round ratio 4))))"

subsection \<open>Payment-history and stability scorers\<close>

definition calculer_score_historique :: "int \<Rightarrow> real" where
  "calculer_score_historique incidents =
     (if incidents = 0 then 100
      else if incidents = 1 then 75
      else if incidents = 2 then 50
      else if incidents = 3 then 25
      else max 0 (10 - of_int (incidents - 4) * 2.5))"

definition calculer_score_stabilite :: "real \<Rightarrow> int \<Rightarrow> real" where
  "calculer_score_stabilite anciennete age =
     (let score =
            (if 10 \<le> anciennete then 100
             else if 5 \<le> anciennete then 85 + ((anciennete - 5) / 5) * 15
             else if 2 \<le> anciennete then 65 + ((anciennete - 2) / 3) * 20
             else if 1 \<le> anciennete then 45 + (anciennete - 1) * 20
             else 20 + anciennete * 25);
          score' =
            (if 30 \<le> age \<and> age \<le> 55 then min 100 (score + 5)
             else if age < 23 \<or> 65 < age then max 0 (score - 10)
             else score)
      in py_round (min 100 (max 0 score')) 2)"

subsection \<open>Constants and data classes\<close>

datatype RiskLevel = TRES_FAIBLE | FAIBLE | MODERE | ELEVE | TRES_ELEVE | CRITIQUE

text \<open>\<^verbatim>\<open>POIDS\<close>, indexed in the source by four literal keys.\<close>

definition POIDS :: "string \<rightharpoonup> real" where
  "POIDS = map_of
     [(''ratio_endettement'', 0.35),
      (''historique_paiement'', 0.30),
      (''stabilite_pro'', 0.20),
      (''coherence_montant'', 0.15)]"

text \<open>\<^verbatim>\<open>SEUILS_RISQUE\<close>: a dictionary, iterated in the order its entries are written.\<close>

definition SEUILS_RISQUE :: "(RiskLevel \<times> real \<times> real) list" where
  "SEUILS_RISQUE =
     [(TRES_FAIBLE, 80, 100),
      (FAIBLE, 65, 80),
      (MODERE, 50, 65),
      (ELEVE, 35, 50),
      (TRES_ELEVE, 20, 35),
      (CRITIQUE, 0, 20)]"

definition SEUILS_MONTANT_PROFIL :: "string \<rightharpoonup> int" where
  "SEUILS_MONTANT_PROFIL = map_of
     [(''etudiant'', 500000),
      (''salarie_junior'', 5000000),
      (''salarie_confirme'', 20000000),
      (''salarie_senior'', 50000000),
      (''entrepreneur'', 30000000),
      (''retraite'', 10000000),
      (''entreprise'', 200000000)]"

record ProfilClient =
  nom :: string
  prenom :: string
  type_client :: string
  profession :: string
  revenu_mensuel :: real
  charges_mensuelles :: real
  dettes_existantes :: real
  anciennete_emploi :: real
  incidents_paiement_12m :: int
  montant_demande :: real
  duree_pret_mois :: int
  age :: int
  apport_personnel :: real
  numero_cni :: string

text \<open>
  An alert is a formatted string in the source. The model keeps which message it is and
  the values the f-string interpolates, not the rendered text: one constructor per
  \<^verbatim>\<open>append\<close> site, in the order of the source. \<open>FRAUDE a\<close> is \<^verbatim>\<open>f"<marker> FRAUDE: {a}"\<close>, the
  fraud alert \<open>a\<close> behind the fraud marker.
\<close>

datatype alerte =
    Montant_tres_superieur_au_seuil real string int real
  | Montant_superieur_au_seuil real int
  | Montant_x_revenu_critique real
  | Montant_x_revenu_alerte real
  | Duree_tres_longue int
  | Age_fin_de_pret real
  | Ratio_endettement_critique real
  | Historique_preoccupant int
  | Incoherence_majeure
  | Montant_x_revenu real
  | Revenu_anormalement_eleve real string
  | Aucune_charge_declaree
  | Incidents_et_montant int real
  | FRAUDE alerte

datatype recommandation_type =
    REFUS_IMMEDIAT
  | ACCORD_DE_PRINCIPE
  | ETUDE_APPROFONDIE
  | RISQUE_ELEVE
  | REFUS_RECOMMANDE

record details_type =
  mensualite_estimee :: real
  capacite_remboursement :: real

text \<open>
  The result, without the explanation text and the list of important factors
  (\<^verbatim>\<open>generer_explication\<close>), which only format the scores computed here.
\<close>

record ResultatScoring =
  score_global :: real
  niveau_risque :: RiskLevel
  score_endettement :: real
  score_historique :: real
  score_stabilite :: real
  score_coherence :: real
  score_fraude :: real
  ratio_endettement :: real
  alertes :: "alerte list"
  recommandation :: recommandation_type
  alerte_fraude :: bool
  details :: details_type

subsection \<open>Coherence scorer\<close>

text \<open>
  The scorer threads \<^verbatim>\<open>score\<close> and \<^verbatim>\<open>alertes\<close> through four independent blocks; each block
  is a function on that pair.
\<close>

type_synonym etat = "real \<times> alerte list"

text \<open>Lines 212--214: the threshold of the profile.\<close>

definition seuil_profil :: "ProfilClient \<Rightarrow> int" where
  "seuil_profil profil =
     (if type_client profil = ''entreprise''
      then the (SEUILS_MONTANT_PROFIL ''entreprise'')
      else (case SEUILS_MONTANT_PROFIL (profession profil) of
              Some s \<Rightarrow> s
            | None \<Rightarrow> 10000000))"

text \<open>Lines 216--229.\<close>

definition coherence_seuil :: "ProfilClient \<Rightarrow> etat \<Rightarrow> etat" where
  "coherence_seuil profil = (\<lambda>(score, alertes).
     (let seuil = seuil_profil profil;
          ratio_seuil = (if 0 < seuil then montant_demande profil / of_int seuil else 999)
      in if 2 < ratio_seuil
         then (score - 60,
               alertes @ [Montant_tres_superieur_au_seuil (montant_demande profil)
                            (profession profil) seuil ratio_seuil])
         else if 1 < ratio_seuil
         then (score - 30,
               alertes @ [Montant_superieur_au_seuil (montant_demande profil) seuil])
         else (score, alertes)))"

text \<open>Lines 231--241.\<close>

definition coherence_revenu :: "ProfilClient \<Rightarrow> etat \<Rightarrow> etat" where
  "coherence_revenu profil = (\<lambda>(score, alertes).
     (let ratio_revenu = montant_demande profil / max (revenu_mensuel profil) 1
      in if 60 < ratio_revenu
         then (score - 30, alertes @ [Montant_x_revenu_critique ratio_revenu])
         else if 48 < ratio_revenu
         then (score - 15, alertes @ [Montant_x_revenu_alerte ratio_revenu])
         else (score, alertes)))"

text \<open>Lines 243--245.\<close>

definition coherence_duree :: "ProfilClient \<Rightarrow> etat \<Rightarrow> etat" where
  "coherence_duree profil = (\<lambda>(score, alertes).
     if 84 < duree_pret_mois profil
     then (score - 10, alertes @ [Duree_tres_longue (duree_pret_mois profil)])
     else (score, alertes))"

text \<open>Lines 247--250.\<close>

definition coherence_age :: "ProfilClient \<Rightarrow> etat \<Rightarrow> etat" where
  "coherence_age profil = (\<lambda>(score, alertes).
     (let age_fin_pret = of_int (age profil) + of_int (duree_pret_mois profil) / 12
      in if 70 < age_fin_pret
         then (score - 15, alertes @ [Age_fin_de_pret age_fin_pret])
         else (score, alertes)))"

definition calculer_score_coherence :: "ProfilClient \<Rightarrow> real \<times> alerte list" where
  "calculer_score_coherence profil =
     (case coherence_age profil
             (coherence_duree profil
               (coherence_revenu profil
                 (coherence_seuil profil (100, [])))) of
        (score, alertes_coherence) \<Rightarrow> (py_round (max 0 score) 2, alertes_coherence))"

subsection \<open>Fraud scorer\<close>

text \<open>Rule 1, lines 273--277.\<close>

definition fraude_coherence :: "real \<Rightarrow> etat \<Rightarrow> etat" where
  "fraude_coherence score_coh = (\<lambda>(score, alertes_fraude).
     if score_coh \<le> 20 then (score + 40, alertes_fraude @ [Incoherence_majeure])
     else if score_coh \<le> 50 then (score + 20, alertes_fraude)
     else (score, alertes_fraude))"

text \<open>Rule 2, lines 280--286.\<close>

definition fraude_montant :: "ProfilClient \<Rightarrow> etat \<Rightarrow> etat" where
  "fraude_montant profil = (\<lambda>(score, alertes_fraude).
     if 0 < revenu_mensuel profil
     then (let ratio = montant_demande profil / revenu_mensuel profil
           in if 100 < ratio then (score + 30, alertes_fraude @ [Montant_x_revenu ratio])
              else if 60 < ratio then (score + 15, alertes_fraude)
              else (score, alertes_fraude))
     else (score, alertes_fraude))"

text \<open>Rule 3, lines 289--301; \<^verbatim>\<open>seuil_rev and ...\<close> is false for a missing key and for 0.\<close>

definition seuils_revenus :: "string \<rightharpoonup> int" where
  "seuils_revenus = map_of
     [(''etudiant'', 200000),
      (''salarie_junior'', 500000),
      (''salarie_confirme'', 2000000),
      (''retraite'', 1000000)]"

definition fraude_revenu :: "ProfilClient \<Rightarrow> etat \<Rightarrow> etat" where
  "fraude_revenu profil = (\<lambda>(score, alertes_fraude).
     (case seuils_revenus (profession profil) of
        None \<Rightarrow> (score, alertes_fraude)
      | Some seuil_rev \<Rightarrow>
          if seuil_rev \<noteq> 0 \<and> of_int (seuil_rev * 3) < revenu_mensuel profil
          then (score + 15,
                alertes_fraude @ [Revenu_anormalement_eleve (revenu_mensuel profil)
                                    (profession profil)])
          else (score, alertes_fraude)))"

text \<open>Rule 4, lines 304--306.\<close>

definition fraude_charges :: "ProfilClient \<Rightarrow> etat \<Rightarrow> etat" where
  "fraude_charges profil = (\<lambda>(score, alertes_fraude).
     if 300000 < revenu_mensuel profil \<and> charges_mensuelles profil = 0
     then (score + 10, alertes_fraude @ [Aucune_charge_declaree])
     else (score, alertes_fraude))"

text \<open>Rule 5, lines 309--314.\<close>

definition fraude_incidents :: "ProfilClient \<Rightarrow> etat \<Rightarrow> etat" where
  "fraude_incidents profil = (\<lambda>(score, alertes_fraude).
     if 3 \<le> incidents_paiement_12m profil \<and> 10000000 < montant_demande profil
     then (score + 15,
           alertes_fraude @ [Incidents_et_montant (incidents_paiement_12m profil)
                               (montant_demande profil)])
     else (score, alertes_fraude))"

definition calculer_score_fraude :: "ProfilClient \<Rightarrow> real \<Rightarrow> real \<times> alerte list" where
  "calculer_score_fraude profil score_coh =
     (case fraude_incidents profil
             (fraude_charges profil
               (fraude_revenu profil
                 (fraude_montant profil
                   (fraude_coherence score_coh (0, []))))) of
        (score, alertes_fraude) \<Rightarrow> (py_round (min 100 score) 2, alertes_fraude))"

subsection \<open>The aggregator\<close>

text \<open>Lines 490--494: the first band of \<^verbatim>\<open>SEUILS_RISQUE\<close> that holds the score, else the initial value.\<close>

fun niveau_de :: "(RiskLevel \<times> real \<times> real) list \<Rightarrow> real \<Rightarrow> RiskLevel" where
  "niveau_de [] s = CRITIQUE"
| "niveau_de ((niveau, seuil_bas, seuil_haut) # seuils) s =
     (if seuil_bas \<le> s \<and> s \<le> seuil_haut then niveau else niveau_de seuils s)"

text \<open>Lines 479--484: the weighted sum, not yet rounded.\<close>

definition somme_ponderee :: "real \<Rightarrow> real \<Rightarrow> real \<Rightarrow> real \<Rightarrow> real" where
  "somme_ponderee s_endettement s_historique s_stabilite s_coherence =
     s_endettement * the (POIDS ''ratio_endettement'') +
     s_historique * the (POIDS ''historique_paiement'') +
     s_stabilite * the (POIDS ''stabilite_pro'') +
     s_coherence * the (POIDS ''coherence_montant'')"

text \<open>Lines 497--508.\<close>

definition alertes_globales ::
    "ProfilClient \<Rightarrow> alerte list \<Rightarrow> real \<Rightarrow> alerte list \<Rightarrow> alerte list" where
  "alertes_globales profil alertes_coherence ratio alertes_fraude =
     (let a0 = alertes_coherence;
          a1 = (if 0.50 < ratio then a0 @ [Ratio_endettement_critique ratio] else a0);
          a2 = (if 3 \<le> incidents_paiement_12m profil
                then a1 @ [Historique_preoccupant (incidents_paiement_12m profil)]
                else a1)
      in foldl (\<lambda>a af. a @ [FRAUDE af]) a2 alertes_fraude)"

text \<open>Lines 511--515.\<close>

definition detection_fraude :: "ProfilClient \<Rightarrow> real \<Rightarrow> real \<Rightarrow> bool" where
  "detection_fraude profil s_fraude s_coherence =
     (let f0 = (50 \<le> s_fraude);
          f1 = (if s_coherence \<le> 20 then True else f0);
          f2 = (if 0 < revenu_mensuel profil
                   \<and> 100 * revenu_mensuel profil < montant_demande profil
                then True else f1)
      in f2)"

text \<open>Lines 524--533.\<close>

definition choisir_recommandation :: "bool \<Rightarrow> real \<Rightarrow> recommandation_type" where
  "choisir_recommandation fraude s_global =
     (if fraude then REFUS_IMMEDIAT
      else if 65 \<le> s_global then ACCORD_DE_PRINCIPE
      else if 50 \<le> s_global then ETUDE_APPROFONDIE
      else if 35 \<le> s_global then RISQUE_ELEVE
      else REFUS_RECOMMANDE)"

text \<open>Lines 536--540: the instalment of the details, 0 when the tenor is not positive.\<close>

definition mensualite_details :: "ProfilClient \<Rightarrow> py_error + real" where
  "mensualite_details profil =
     (if 0 < duree_pret_mois profil
      then annuite (montant_demande profil) (0.15 / 12) (duree_pret_mois profil)
      else Inr 0)"

definition calculer_score_risque :: "ProfilClient \<Rightarrow> py_error + ResultatScoring" where
  "calculer_score_risque profil =
     (case calculer_score_endettement (revenu_mensuel profil) (charges_mensuelles profil)
             (dettes_existantes profil) (montant_demande profil) (duree_pret_mois profil) of
        Inl e \<Rightarrow> Inl e
      | Inr (s_endettement, ratio) \<Rightarrow>
          (let s_historique = calculer_score_historique (incidents_paiement_12m profil);
               s_stabilite = calculer_score_stabilite (anciennete_emploi profil) (age profil)
           in case calculer_score_coherence profil of
                (s_coherence, alertes_coherence) \<Rightarrow>
                  (let s_global =
                         somme_ponderee s_endettement s_historique s_stabilite s_coherence
                   in case calculer_score_fraude profil s_coherence of
                        (s_fraude, alertes_fraude) \<Rightarrow>
                          (let niveau = niveau_de SEUILS_RISQUE s_global;
                               fraude = detection_fraude profil s_fraude s_coherence
                           in case mensualite_details profil of
                                Inl e \<Rightarrow> Inl e
                              | Inr mensualite \<Rightarrow>
                                  Inr \<lparr>score_global = py_round s_global 2,
                                       niveau_risque = niveau,
                                       score_endettement = s_endettement,
                                       score_historique = s_historique,
                                       score_stabilite = s_stabilite,
                                       score_coherence = s_coherence,
                                       score_fraude = s_fraude,
                                       ratio_endettement = ratio,
                                       alertes = alertes_globales profil alertes_coherence
                                                   ratio alertes_fraude,
                                       recommandation = choisir_recommandation fraude s_global,
                                       alerte_fraude = fraude,
                                       details =
                                         \<lparr>mensualite_estimee = py_round mensualite 0,
                                          capacite_remboursement =
                                            py_round (revenu_mensuel profil
                                                        - charges_mensuelles profil
                                                        - dettes_existantes profil) 0\<rparr>\<rparr>))))"

subsection \<open>Loan simulator\<close>

record ligne_amortissement =
  mois :: int
  mensualite :: real
  capital :: real
  interets :: real
  capital_restant :: real




section \<open>Properties\<close>

subsection \<open>Rounding\<close>

lemma round_half_even_range:
  "\<lfloor>s\<rfloor> \<le> round_half_even s \<and> round_half_even s \<le> \<lfloor>s\<rfloor> + 1"
  by (simp add: round_half_even_def Let_def)

lemma round_half_even_mono:
  assumes "s \<le> t"
  shows "round_half_even s \<le> round_half_even t"
proof (cases "\<lfloor>s\<rfloor> < \<lfloor>t\<rfloor>")
  case True
  have "round_half_even s \<le> \<lfloor>s\<rfloor> + 1"
    using round_half_even_range [of s] by simp
  also have "\<dots> \<le> \<lfloor>t\<rfloor>"
    using True by simp
  also have "\<dots> \<le> round_half_even t"
    using round_half_even_range [of t] by simp
  finally show ?thesis .
next
  case False
  with assms have eq: "\<lfloor>s\<rfloor> = \<lfloor>t\<rfloor>"
    using floor_mono [of s t] by simp
  show ?thesis
    using assms unfolding round_half_even_def Let_def eq
    by (auto split: if_splits)
qed

lemma round_half_even_of_int: "round_half_even (of_int k) = k"
  by (simp add: round_half_even_def)

lemma py_round_mono: "x \<le> y \<Longrightarrow> py_round x nd \<le> py_round y nd"
  unfolding py_round_def
  by (intro divide_right_mono round_half_even_mono mult_right_mono iffD2 [OF of_int_le_iff]) simp_all

lemma py_round_of_int: "py_round (of_int k) nd = of_int k"
proof -
  have "(of_int k :: real) * 10 ^ nd = of_int (k * 10 ^ nd)"
    by simp
  then have "round_half_even (of_int k * 10 ^ nd) = k * 10 ^ nd"
    by (simp only: round_half_even_of_int)
  then show ?thesis
    by (simp add: py_round_def)
qed

lemma py_round_bounds:
  assumes "of_int a \<le> x" and "x \<le> of_int b"
  shows "of_int a \<le> py_round x nd \<and> py_round x nd \<le> of_int b"
  using py_round_mono [OF assms(1), of nd] py_round_mono [OF assms(2), of nd]
  by (simp add: py_round_of_int)

lemma py_round_0_100:
  "0 \<le> x \<Longrightarrow> x \<le> 100 \<Longrightarrow> 0 \<le> py_round x nd \<and> py_round x nd \<le> 100"
  using py_round_bounds [of 0 x 100 nd] by simp


subsection \<open>The instalment is always defined\<close>

lemma annuite_denominateur: "0 < t \<Longrightarrow> 0 < d \<Longrightarrow> 0 < (1 + t) ^ nat d - (1::real)"
proof -
  assume t: "0 < t" and d: "0 < d"
  have "1 < (1 + t) ^ nat d"
    by (rule one_less_power) (use t d in auto)
  then show ?thesis by simp
qed

lemma annuite_Inr:
  "0 < t \<Longrightarrow> 0 < d \<Longrightarrow>
     annuite m t d = Inr (m * (t * (1 + t) ^ nat d) / ((1 + t) ^ nat d - 1))"
proof -
  assume "0 < t" and "0 < d"
  then have "0 < (1 + t) ^ nat d - 1"
    by (rule annuite_denominateur)
  then have "(1 + t) ^ nat d - 1 \<noteq> 0"
    by (rule less_imp_neq [THEN not_sym])
  then show ?thesis
    unfolding annuite_def py_div_def by (rule if_not_P)
qed


subsection \<open>The keys the code reads are in the dictionaries\<close>

lemma cles_presentes:
  "POIDS ''ratio_endettement'' = Some 0.35"
  "POIDS ''historique_paiement'' = Some 0.30"
  "POIDS ''stabilite_pro'' = Some 0.20"
  "POIDS ''coherence_montant'' = Some 0.15"
  "SEUILS_MONTANT_PROFIL ''entreprise'' = Some 200000000"
  by (simp_all add: POIDS_def SEUILS_MONTANT_PROFIL_def)

subsection \<open>The aggregator always returns\<close>





subsection \<open>Ranges of the component scores\<close>

lemma score_ratio_range: "0 \<le> score_ratio r \<and> score_ratio r \<le> 100"
  unfolding score_ratio_def by (simp add: field_simps max_def)




lemma coherence_blocs_le:
  "fst (coherence_seuil profil (s, a)) \<le> s"
  "fst (coherence_revenu profil (s, a)) \<le> s"
  "fst (coherence_duree profil (s, a)) \<le> s"
  "fst (coherence_age profil (s, a)) \<le> s"
  by (simp_all add: coherence_seuil_def coherence_revenu_def coherence_duree_def
      coherence_age_def Let_def)





subsection \<open>The alert list\<close>








subsection \<open>The fraud rules\<close>

lemma fraude_blocs_range:
  "fst (fraude_coherence sc (s, a)) \<in> {s, s + 20, s + 40}"
  "fst (fraude_montant profil (s, a)) \<in> {s, s + 15, s + 30}"
  "fst (fraude_revenu profil (s, a)) \<in> {s, s + 15}"
  "fst (fraude_charges profil (s, a)) \<in> {s, s + 10}"
  "fst (fraude_incidents profil (s, a)) \<in> {s, s + 15}"
  by (simp_all add: fraude_coherence_def fraude_montant_def fraude_revenu_def
      fraude_charges_def fraude_incidents_def Let_def split: option.split)

lemma fraude_somme_range:
  "0 \<le> fst (fraude_incidents profil (fraude_charges profil (fraude_revenu profil
            (fraude_montant profil (fraude_coherence sc (0, []))))))
   \<and> fst (fraude_incidents profil (fraude_charges profil (fraude_revenu profil
            (fraude_montant profil (fraude_coherence sc (0, [])))))) \<le> 110"
proof -
  obtain s1 a1 where 1: "fraude_coherence sc (0, []) = (s1, a1)"
    by (cases "fraude_coherence sc (0, [])")
  obtain s2 a2 where 2: "fraude_montant profil (s1, a1) = (s2, a2)"
    by (cases "fraude_montant profil (s1, a1)")
  obtain s3 a3 where 3: "fraude_revenu profil (s2, a2) = (s3, a3)"
    by (cases "fraude_revenu profil (s2, a2)")
  obtain s4 a4 where 4: "fraude_charges profil (s3, a3) = (s4, a4)"
    by (cases "fraude_charges profil (s3, a3)")
  obtain s5 a5 where 5: "fraude_incidents profil (s4, a4) = (s5, a5)"
    by (cases "fraude_incidents profil (s4, a4)")
  have "0 \<le> s1 \<and> s1 \<le> 40"
    using fraude_blocs_range(1) [of sc 0 "[]"] by (auto simp add: 1)
  moreover have "s1 \<le> s2 \<and> s2 \<le> s1 + 30"
    using fraude_blocs_range(2) [of profil s1 a1] by (auto simp add: 2)
  moreover have "s2 \<le> s3 \<and> s3 \<le> s2 + 15"
    using fraude_blocs_range(3) [of profil s2 a2] by (auto simp add: 3)
  moreover have "s3 \<le> s4 \<and> s4 \<le> s3 + 10"
    using fraude_blocs_range(4) [of profil s3 a3] by (auto simp add: 4)
  moreover have "s4 \<le> s5 \<and> s5 \<le> s4 + 15"
    using fraude_blocs_range(5) [of profil s4 a4] by (auto simp add: 5)
  ultimately have "0 \<le> s5 \<and> s5 \<le> 110"
    by linarith
  then show ?thesis
    by (simp add: 1 2 3 4 5)
qed

lemma calculer_score_fraude_eq:
  "calculer_score_fraude profil sc =
     (py_round (min 100 (fst (fraude_incidents profil (fraude_charges profil
        (fraude_revenu profil (fraude_montant profil (fraude_coherence sc (0, [])))))))) 2,
      snd (fraude_incidents profil (fraude_charges profil
        (fraude_revenu profil (fraude_montant profil (fraude_coherence sc (0, [])))))))"
  by (simp add: calculer_score_fraude_def split: prod.split)

lemma fraude_toutes_les_regles:
  assumes "sc \<le> 20"
    and "0 < revenu_mensuel profil"
    and "100 < montant_demande profil / revenu_mensuel profil"
    and "seuils_revenus (profession profil) = Some seuil"
    and "seuil \<noteq> 0"
    and "of_int (seuil * 3) < revenu_mensuel profil"
    and "300000 < revenu_mensuel profil"
    and "charges_mensuelles profil = 0"
    and "3 \<le> incidents_paiement_12m profil"
    and "10000000 < montant_demande profil"
  shows "fst (fraude_incidents profil (fraude_charges profil (fraude_revenu profil
            (fraude_montant profil (fraude_coherence sc (0, [])))))) = 110"
  using assms
  by (simp add: fraude_coherence_def fraude_montant_def fraude_revenu_def
      fraude_charges_def fraude_incidents_def Let_def)

subsection \<open>Income that is not positive\<close>

lemma coherence_revenu_non_positif:
  "revenu_mensuel profil \<le> 0 \<Longrightarrow>
     coherence_revenu profil (s, a) =
       (if 60 < montant_demande profil
        then (s - 30, a @ [Montant_x_revenu_critique (montant_demande profil)])
        else if 48 < montant_demande profil
        then (s - 15, a @ [Montant_x_revenu_alerte (montant_demande profil)])
        else (s, a))"
  by (simp add: coherence_revenu_def Let_def max_def)

lemma fraude_montant_non_positif:
  "revenu_mensuel profil \<le> 0 \<Longrightarrow> fraude_montant profil (s, a) = (s, a)"
  by (simp add: fraude_montant_def)

lemma coherence_blocs_set:
  "set a \<subseteq> set (snd (coherence_duree profil (s, a)))"
  "set a \<subseteq> set (snd (coherence_age profil (s, a)))"
  by (auto simp add: coherence_duree_def coherence_age_def Let_def)

lemma calculer_score_coherence_revenu_non_positif:
  assumes "revenu_mensuel profil \<le> 0" and "60 < montant_demande profil"
  shows "Montant_x_revenu_critique (montant_demande profil)
           \<in> set (snd (calculer_score_coherence profil))
         \<and> fst (calculer_score_coherence profil) \<le> 70"
proof -
  obtain s1 a1 where 1: "coherence_seuil profil (100, []) = (s1, a1)"
    by (cases "coherence_seuil profil (100, [])")
  have 2: "coherence_revenu profil (s1, a1) =
      (s1 - 30, a1 @ [Montant_x_revenu_critique (montant_demande profil)])"
    using assms by (simp add: coherence_revenu_non_positif)
  obtain s3 a3 where 3: "coherence_duree profil
      (s1 - 30, a1 @ [Montant_x_revenu_critique (montant_demande profil)]) = (s3, a3)"
    by (cases "coherence_duree profil
      (s1 - 30, a1 @ [Montant_x_revenu_critique (montant_demande profil)])")
  obtain s4 a4 where 4: "coherence_age profil (s3, a3) = (s4, a4)"
    by (cases "coherence_age profil (s3, a3)")
  have "Montant_x_revenu_critique (montant_demande profil) \<in> set a3"
    using coherence_blocs_set(1)
      [of "a1 @ [Montant_x_revenu_critique (montant_demande profil)]" profil "s1 - 30"]
    by (simp add: 3)
  then have m: "Montant_x_revenu_critique (montant_demande profil) \<in> set a4"
    using coherence_blocs_set(2) [of a3 profil s3] by (auto simp add: 4)
  have "s1 \<le> 100" "s3 \<le> s1 - 30" "s4 \<le> s3"
    using coherence_blocs_le(1) [of profil 100 "[]"]
      coherence_blocs_le(3)
        [of profil "s1 - 30" "a1 @ [Montant_x_revenu_critique (montant_demande profil)]"]
      coherence_blocs_le(4) [of profil s3 a3]
    by (simp_all add: 1 3 4)
  then have "max 0 s4 \<le> 70" "0 \<le> max 0 s4"
    by simp_all
  then have "py_round (max 0 s4) 2 \<le> 70"
    using py_round_bounds [of 0 "max 0 s4" 70 2] by simp
  with m show ?thesis
    by (simp add: calculer_score_coherence_def 1 2 3 4)
qed

subsection \<open>The debt-ratio score mapping\<close>

lemma score_ratio_bandes:
  "score_ratio r =
     (if r \<le> 1/5 then 100
      else if r \<le> 33/100 then (1900 - 3000 * r) / 13
      else if r \<le> 9/20 then (305 - 500 * r) / 2
      else if r \<le> 3/5 then (345 - 500 * r) / 3
      else max 0 ((75 - 75 * r) / 2))"
  unfolding score_ratio_def by (simp add: field_simps max_def)

lemma score_ratio_antimono: "r1 \<le> r2 \<Longrightarrow> score_ratio r2 \<le> score_ratio r1"
  unfolding score_ratio_bandes by (simp add: max_def)

lemma score_ratio_pente:
  "r1 \<le> r2 \<Longrightarrow> score_ratio r1 - score_ratio r2 \<le> 250 * (r2 - r1)"
  unfolding score_ratio_bandes
  by (simp add: max_def, intro conjI impI) (simp_all add: field_simps)

lemma score_ratio_lipschitz: "\<bar>score_ratio x - score_ratio y\<bar> \<le> 250 * \<bar>x - y\<bar>"
proof (cases "x \<le> y")
  case True
  then show ?thesis
    using score_ratio_antimono [of x y] score_ratio_pente [of x y] by simp
next
  case False
  then have "y \<le> x" by simp
  then show ?thesis
    using score_ratio_antimono [of y x] score_ratio_pente [of y x] by simp
qed

lemma score_ratio_isCont: "isCont score_ratio r"
  unfolding isCont_def
proof (rule LIM_I)
  fix e :: real
  assume e: "0 < e"
  have "\<forall>x. x \<noteq> r \<and> norm (x - r) < e / 250 \<longrightarrow> norm (score_ratio x - score_ratio r) < e"
  proof (intro allI impI)
    fix x
    assume "x \<noteq> r \<and> norm (x - r) < e / 250"
    then have "250 * \<bar>x - r\<bar> < e"
      by simp
    with score_ratio_lipschitz [of x r] show "norm (score_ratio x - score_ratio r) < e"
      by simp
  qed
  moreover have "0 < e / 250"
    using e by simp
  ultimately show "\<exists>s>0. \<forall>x. x \<noteq> r \<and> norm (x - r) < s \<longrightarrow> norm (score_ratio x - score_ratio r) < e"
    by blast
qed

subsection \<open>Worked examples\<close>

text \<open>
  Profiles evaluated in full: two whose weighted sum is on or just below the boundary 80,
  and one that raises alerts of all four kinds.
\<close>

lemmas evaluation =
  calculer_score_risque_def calculer_score_endettement_def mensualite_pret_def annuite_Inr
  score_ratio_def py_round_def round_half_even_def calculer_score_historique_def
  calculer_score_stabilite_def calculer_score_coherence_def coherence_seuil_def seuil_profil_def
  SEUILS_MONTANT_PROFIL_def coherence_revenu_def coherence_duree_def coherence_age_def
  calculer_score_fraude_def fraude_coherence_def fraude_montant_def fraude_revenu_def
  seuils_revenus_def fraude_charges_def fraude_incidents_def somme_ponderee_def POIDS_def
  SEUILS_RISQUE_def alertes_globales_def detection_fraude_def choisir_recommandation_def
  mensualite_details_def Let_def



lemma exemple_quatre_alertes:
  "calculer_score_risque
     \<lparr>nom = ''Fall'', prenom = ''Omar'', type_client = ''particulier'',
      profession = ''etudiant'', revenu_mensuel = 0, charges_mensuelles = 0,
      dettes_existantes = 0, anciennete_emploi = 0.5, incidents_paiement_12m = 3,
      montant_demande = 20000000, duree_pret_mois = 1, age = 20, apport_personnel = 0,
      numero_cni = ''''\<rparr>
   = Inr \<lparr>score_global = 13.5, niveau_risque = CRITIQUE,
        score_endettement = 0, score_historique = 25,
        score_stabilite = 22.5, score_coherence = 10, score_fraude = 55,
        ratio_endettement = 1,
        alertes =
          [Montant_tres_superieur_au_seuil 20000000 ''etudiant'' 500000 40,
           Montant_x_revenu_critique 20000000,
           Ratio_endettement_critique 1,
           Historique_preoccupant 3,
           FRAUDE Incoherence_majeure,
           FRAUDE (Incidents_et_montant 3 20000000)],
        recommandation = REFUS_IMMEDIAT, alerte_fraude = True,
        details = \<lparr>mensualite_estimee = 20250000, capacite_remboursement = 0\<rparr>\<rparr>"
  by (simp add: evaluation)

subsection \<open>C1: the global score\<close>


subsection \<open>C2: the risk tier\<close>




subsection \<open>C3: the fraud flag\<close>


subsection \<open>C4: zero or negative income\<close>

text \<open>
  C4. For every input with monthly income \<open>\<le> 0\<close>, \<open>calculer_score_endettement\<close> returns
  the score 0 and the ratio 1, whatever the charges, the debts, the requested amount and
  the tenor are, and it returns (no error).
\<close>

theorem C4_revenu_non_positif:
  "revenu \<le> 0 \<Longrightarrow>
     calculer_score_endettement revenu charges dettes montant duree = Inr (0, 1)"
  by (simp add: calculer_score_endettement_def)

theorem C4_revenu_non_positif_witness:
  "(0::real) \<le> 0 \<and> (-250000::real) \<le> 0
   \<and> calculer_score_endettement 0 80000 30000 5000000 36 = Inr (0, 1)
   \<and> calculer_score_endettement (-250000) 0 0 0 0 = Inr (0, 1)"
  using C4_revenu_non_positif [of 0 80000 30000 5000000 36]
    C4_revenu_non_positif [of "-250000" 0 0 0 0]
  by simp

subsection \<open>C5: the fraud score\<close>

text \<open>
  C5. For every profile and coherence score, the fraud score of \<open>calculer_score_fraude\<close> lies
  in [0,100]: it is the sum of the five rule contributions, a sum between 0 and
  40 + 30 + 15 + 10 + 15 = 110, capped at 100 and rounded to 2 decimals. When all five
  rules fire at once the sum is 110 and the fraud score is exactly 100.
\<close>

theorem C5_score_fraude:
  "0 \<le> fst (calculer_score_fraude profil sc)
   \<and> fst (calculer_score_fraude profil sc) \<le> 100
   \<and> fst (calculer_score_fraude profil sc) =
       py_round (min 100 (fst (fraude_incidents profil (fraude_charges profil
         (fraude_revenu profil (fraude_montant profil (fraude_coherence sc (0, [])))))))) 2
   \<and> 0 \<le> fst (fraude_incidents profil (fraude_charges profil (fraude_revenu profil
              (fraude_montant profil (fraude_coherence sc (0, []))))))
   \<and> fst (fraude_incidents profil (fraude_charges profil (fraude_revenu profil
          (fraude_montant profil (fraude_coherence sc (0, [])))))) \<le> 110
   \<and> (sc \<le> 20
        \<and> 0 < revenu_mensuel profil
        \<and> 100 < montant_demande profil / revenu_mensuel profil
        \<and> (\<exists>seuil. seuils_revenus (profession profil) = Some seuil \<and> seuil \<noteq> 0
              \<and> of_int (seuil * 3) < revenu_mensuel profil)
        \<and> 300000 < revenu_mensuel profil
        \<and> charges_mensuelles profil = 0
        \<and> 3 \<le> incidents_paiement_12m profil
        \<and> 10000000 < montant_demande profil
       \<longrightarrow> fst (fraude_incidents profil (fraude_charges profil (fraude_revenu profil
                (fraude_montant profil (fraude_coherence sc (0, [])))))) = 110
           \<and> fst (calculer_score_fraude profil sc) = 100)"
proof -
  let ?s = "fst (fraude_incidents profil (fraude_charges profil (fraude_revenu profil
              (fraude_montant profil (fraude_coherence sc (0, []))))))"
  have r: "0 \<le> ?s \<and> ?s \<le> 110"
    by (rule fraude_somme_range)
  have eq: "fst (calculer_score_fraude profil sc) = py_round (min 100 ?s) 2"
    by (simp add: calculer_score_fraude_eq)
  have "0 \<le> min 100 ?s" and "min 100 ?s \<le> 100"
    using r by simp_all
  then have b: "0 \<le> py_round (min 100 ?s) 2 \<and> py_round (min 100 ?s) 2 \<le> 100"
    by (rule py_round_0_100)
  have "py_round (min 100 ?s) 2 = 100" if "?s = 110"
    using that py_round_of_int [of 100 2] by simp
  then show ?thesis
    using r b eq fraude_toutes_les_regles [of sc profil] by auto
qed

theorem C5_score_fraude_witness:
  "(10::real) \<le> 20
   \<and> 100 < (120000000::real) / 800000
   \<and> seuils_revenus ''etudiant'' = Some 200000
   \<and> real_of_int (200000 * 3) < 800000
   \<and> fst (calculer_score_fraude
        \<lparr>nom = ''Kane'', prenom = ''Ibrahima'', type_client = ''particulier'',
         profession = ''etudiant'', revenu_mensuel = 800000, charges_mensuelles = 0,
         dettes_existantes = 0, anciennete_emploi = 1, incidents_paiement_12m = 5,
         montant_demande = 120000000, duree_pret_mois = 36, age = 30, apport_personnel = 0,
         numero_cni = ''''\<rparr> 10) = 100"
proof -
  let ?P = "\<lparr>nom = ''Kane'', prenom = ''Ibrahima'', type_client = ''particulier'',
         profession = ''etudiant'', revenu_mensuel = 800000, charges_mensuelles = 0,
         dettes_existantes = 0, anciennete_emploi = 1, incidents_paiement_12m = 5,
         montant_demande = 120000000, duree_pret_mois = 36, age = 30, apport_personnel = 0,
         numero_cni = ''''\<rparr>"
  have h: "(10::real) \<le> 20
        \<and> 0 < revenu_mensuel ?P
        \<and> 100 < montant_demande ?P / revenu_mensuel ?P
        \<and> (\<exists>seuil. seuils_revenus (profession ?P) = Some seuil \<and> seuil \<noteq> 0
              \<and> of_int (seuil * 3) < revenu_mensuel ?P)
        \<and> 300000 < revenu_mensuel ?P
        \<and> charges_mensuelles ?P = 0
        \<and> 3 \<le> incidents_paiement_12m ?P
        \<and> 10000000 < montant_demande ?P"
    by (simp add: seuils_revenus_def)
  have "fst (calculer_score_fraude ?P 10) = 100"
    using C5_score_fraude [of ?P 10] h by blast
  then show ?thesis
    by (simp add: seuils_revenus_def)
qed

subsection \<open>C6: the debt-ratio score mapping\<close>

text \<open>
  C6. The mapping from the debt ratio to the debt-ratio score is non-increasing in the
  ratio, before and after the rounding to 2 decimals, and continuous: at each band
  boundary the value of the band that ends there and the limit of the band that starts
  there agree, at 0.20 on 100, at 0.33 on 70, at 0.45 on 40 and at 0.60 on 15. The last
  band is floored at 0, which it reaches at ratio 1. This holds for every ratio, so in
  particular for the ratios in (0,1].
\<close>

theorem C6_score_ratio_monotone_continu:
  "(\<forall>r1 r2. r1 \<le> r2 \<longrightarrow> score_ratio r2 \<le> score_ratio r1)
   \<and> (\<forall>r1 r2. r1 \<le> r2 \<longrightarrow> py_round (score_ratio r2) 2 \<le> py_round (score_ratio r1) 2)
   \<and> (\<forall>r. isCont score_ratio r)
   \<and> score_ratio 0.20 = 100 \<and> (score_ratio \<longlongrightarrow> 100) (at_right 0.20)
   \<and> score_ratio 0.33 = 70 \<and> (score_ratio \<longlongrightarrow> 70) (at_right 0.33)
   \<and> score_ratio 0.45 = 40 \<and> (score_ratio \<longlongrightarrow> 40) (at_right 0.45)
   \<and> score_ratio 0.60 = 15 \<and> (score_ratio \<longlongrightarrow> 15) (at_right 0.60)
   \<and> (\<forall>r. 0 \<le> score_ratio r)
   \<and> score_ratio 1 = 0"
proof -
  have v: "score_ratio 0.20 = 100" "score_ratio 0.33 = 70" "score_ratio 0.45 = 40"
    "score_ratio 0.60 = 15" "score_ratio 1 = 0"
    by (simp_all add: score_ratio_def)
  have l: "(score_ratio \<longlongrightarrow> score_ratio r) (at_right r)" for r
    using score_ratio_isCont [of r] by (simp add: continuous_within filterlim_at_split)
  show ?thesis
    using score_ratio_antimono py_round_mono score_ratio_isCont score_ratio_range
      l [of "0.20"] l [of "0.33"] l [of "0.45"] l [of "0.60"] v
    by simp
qed

theorem C6_score_ratio_monotone_continu_witness:
  "(0.25::real) \<le> 0.5
   \<and> score_ratio 0.5 \<le> score_ratio 0.25
   \<and> py_round (score_ratio 0.5) 2 \<le> py_round (score_ratio 0.25) 2
   \<and> py_round (score_ratio 0.25) 2 = 88.46
   \<and> py_round (score_ratio 0.5) 2 = 31.67"
proof -
  have h: "(0.25::real) \<le> 0.5"
    by simp
  have m: "\<forall>r1 r2. r1 \<le> r2 \<longrightarrow> score_ratio r2 \<le> score_ratio r1"
    by (rule conjunct1 [OF C6_score_ratio_monotone_continu])
  have a: "\<forall>r1 r2. r1 \<le> r2 \<longrightarrow> py_round (score_ratio r2) 2 \<le> py_round (score_ratio r1) 2"
    by (rule conjunct1 [OF conjunct2 [OF C6_score_ratio_monotone_continu]])
  have "score_ratio 0.5 \<le> score_ratio 0.25"
    using m h by blast
  moreover have "py_round (score_ratio 0.5) 2 \<le> py_round (score_ratio 0.25) 2"
    using a h by blast
  moreover have "py_round (score_ratio 0.25) 2 = 88.46" "py_round (score_ratio 0.5) 2 = 31.67"
    by (simp_all add: score_ratio_def py_round_def round_half_even_def Let_def)
  ultimately show ?thesis
    using h by blast
qed

subsection \<open>C7: the order of the alerts\<close>


subsection \<open>C8: eligibility in the simulator\<close>



subsection \<open>C9: the tier is chosen before the rounding\<close>


subsection \<open>C10: zero income in the coherence and fraud scorers\<close>

text \<open>
  C10. For every profile with monthly income \<open>\<le> 0\<close>, the coherence scorer divides the
  requested amount by \<open>max(income, 1) = 1\<close>: its income rule deducts 30 and raises the
  critical alert for any amount above 60 (15 and the warning above 48), so the alert is in
  the scorer's list and the coherence score is at most 70; the fraud scorer's
  amount/income rule is skipped (it leaves score and alerts as they are), so the fraud
  score is that of the four other rules.
\<close>

theorem C10_revenu_non_positif_asymetrie:
  "revenu_mensuel profil \<le> 0 \<longrightarrow>
     coherence_revenu profil (s, a) =
       (if 60 < montant_demande profil
        then (s - 30, a @ [Montant_x_revenu_critique (montant_demande profil)])
        else if 48 < montant_demande profil
        then (s - 15, a @ [Montant_x_revenu_alerte (montant_demande profil)])
        else (s, a))
     \<and> (60 < montant_demande profil \<longrightarrow>
          Montant_x_revenu_critique (montant_demande profil)
            \<in> set (snd (calculer_score_coherence profil))
          \<and> fst (calculer_score_coherence profil) \<le> 70)
     \<and> fraude_montant profil (s', a') = (s', a')
     \<and> calculer_score_fraude profil sc =
         (py_round (min 100 (fst (fraude_incidents profil (fraude_charges profil
            (fraude_revenu profil (fraude_coherence sc (0, []))))))) 2,
          snd (fraude_incidents profil (fraude_charges profil
            (fraude_revenu profil (fraude_coherence sc (0, []))))))"
proof (intro impI conjI)
  assume r: "revenu_mensuel profil \<le> 0"
  show "coherence_revenu profil (s, a) =
       (if 60 < montant_demande profil
        then (s - 30, a @ [Montant_x_revenu_critique (montant_demande profil)])
        else if 48 < montant_demande profil
        then (s - 15, a @ [Montant_x_revenu_alerte (montant_demande profil)])
        else (s, a))"
    using r by (rule coherence_revenu_non_positif)
  show "fraude_montant profil (s', a') = (s', a')"
    using r by (rule fraude_montant_non_positif)
  obtain s1 a1 where 1: "fraude_coherence sc (0, []) = (s1, a1)"
    by (cases "fraude_coherence sc (0, [])")
  show "calculer_score_fraude profil sc =
         (py_round (min 100 (fst (fraude_incidents profil (fraude_charges profil
            (fraude_revenu profil (fraude_coherence sc (0, []))))))) 2,
          snd (fraude_incidents profil (fraude_charges profil
            (fraude_revenu profil (fraude_coherence sc (0, []))))))"
    using r by (simp add: calculer_score_fraude_eq 1 fraude_montant_non_positif)
next
  assume "revenu_mensuel profil \<le> 0" and "60 < montant_demande profil"
  then have c: "Montant_x_revenu_critique (montant_demande profil)
           \<in> set (snd (calculer_score_coherence profil))
         \<and> fst (calculer_score_coherence profil) \<le> 70"
    by (rule calculer_score_coherence_revenu_non_positif)
  from c show "Montant_x_revenu_critique (montant_demande profil)
           \<in> set (snd (calculer_score_coherence profil))" ..
  from c show "fst (calculer_score_coherence profil) \<le> 70" ..
qed

theorem C10_revenu_non_positif_asymetrie_witness:
  "revenu_mensuel
     \<lparr>nom = ''Ba'', prenom = ''Aminata'', type_client = ''particulier'',
      profession = ''salarie_junior'', revenu_mensuel = 0, charges_mensuelles = 0,
      dettes_existantes = 0, anciennete_emploi = 3, incidents_paiement_12m = 0,
      montant_demande = 61, duree_pret_mois = 12, age = 30, apport_personnel = 0,
      numero_cni = ''''\<rparr> \<le> 0
   \<and> 60 < montant_demande
     \<lparr>nom = ''Ba'', prenom = ''Aminata'', type_client = ''particulier'',
      profession = ''salarie_junior'', revenu_mensuel = 0, charges_mensuelles = 0,
      dettes_existantes = 0, anciennete_emploi = 3, incidents_paiement_12m = 0,
      montant_demande = 61, duree_pret_mois = 12, age = 30, apport_personnel = 0,
      numero_cni = ''''\<rparr>
   \<and> coherence_revenu
     \<lparr>nom = ''Ba'', prenom = ''Aminata'', type_client = ''particulier'',
      profession = ''salarie_junior'', revenu_mensuel = 0, charges_mensuelles = 0,
      dettes_existantes = 0, anciennete_emploi = 3, incidents_paiement_12m = 0,
      montant_demande = 61, duree_pret_mois = 12, age = 30, apport_personnel = 0,
      numero_cni = ''''\<rparr> (100, []) = (70, [Montant_x_revenu_critique 61])
   \<and> fraude_montant
     \<lparr>nom = ''Ba'', prenom = ''Aminata'', type_client = ''particulier'',
      profession = ''salarie_junior'', revenu_mensuel = 0, charges_mensuelles = 0,
      dettes_existantes = 0, anciennete_emploi = 3, incidents_paiement_12m = 0,
      montant_demande = 61, duree_pret_mois = 12, age = 30, apport_personnel = 0,
      numero_cni = ''''\<rparr> (0, []) = (0, [])
   \<and> Montant_x_revenu_critique 61 \<in> set (snd (calculer_score_coherence
     \<lparr>nom = ''Ba'', prenom = ''Aminata'', type_client = ''particulier'',
      profession = ''salarie_junior'', revenu_mensuel = 0, charges_mensuelles = 0,
      dettes_existantes = 0, anciennete_emploi = 3, incidents_paiement_12m = 0,
      montant_demande = 61, duree_pret_mois = 12, age = 30, apport_personnel = 0,
      numero_cni = ''''\<rparr>))"
  using C10_revenu_non_positif_asymetrie
    [of "\<lparr>nom = ''Ba'', prenom = ''Aminata'', type_client = ''particulier'',
      profession = ''salarie_junior'', revenu_mensuel = 0, charges_mensuelles = 0,
      dettes_existantes = 0, anciennete_emploi = 3, incidents_paiement_12m = 0,
      montant_demande = 61, duree_pret_mois = 12, age = 30, apport_personnel = 0,
      numero_cni = ''''\<rparr>" 100 "[]" 0 "[]"]
  by simp

end
